theory Spec2Isabelle
  imports Complex_Main
begin

section \<open>JavaScript values and the collaborators of the module\<close>

text \<open>
  The report is plain data: numbers, strings, arrays and objects. A number is a double;
  a finite one is read as the real it denotes, and the three non-finite ones are kept
  apart. Reading a property that an object does not have gives \<open>undefined\<close>.
\<close>

datatype jsnum = Finite real | PosInfinity | NegInfinity | NaN

datatype jsval = Undefined | Number jsnum

text \<open>The test of \<open>if (v)\<close> and of \<open>v ? a : b\<close>: \<open>undefined\<close>, zero and NaN are falsy.\<close>

fun truthy :: "jsval \<Rightarrow> bool" where
  "truthy Undefined = False"
| "truthy (Number (Finite x)) = (x \<noteq> 0)"
| "truthy (Number NaN) = False"
| "truthy (Number PosInfinity) = True"
| "truthy (Number NegInfinity) = True"

text \<open>
  An object is a finite map from its keys to the values stored under them; \<open>obj[k]\<close>
  is \<open>undefined\<close> for a key that was never stored. A key may also hold \<open>undefined\<close>
  itself (after \<open>obj[k] = undefined\<close>), which is why the map is kept apart from the read.
\<close>

definition js_get :: "('k \<rightharpoonup> jsval) \<Rightarrow> 'k \<Rightarrow> jsval" where
  "js_get obj k = (case obj k of None \<Rightarrow> Undefined | Some v \<Rightarrow> v)"

text \<open>
  What the module calls and does not define: the conversion of a number to text done by
  string \<open>+\<close>, the operators \<open>*\<close> and \<open>/\<close> on doubles, \<open>hljs.highlight(lang, code).value\<close>,
  \<open>d3scale.scaleLog().domain(d).range(r)\<close>, and what the browser makes of
  \<open>selection.style(name, value)\<close>: the declaration of the property \<open>name\<close> that the
  element has afterwards, given the one it had (\<open>None\<close> when it has none). They are
  parameters of the model.
\<close>

record extern =
  js_toString :: "jsval \<Rightarrow> string"
  js_times :: "jsval \<Rightarrow> jsval \<Rightarrow> jsval"
  js_divide :: "jsval \<Rightarrow> jsval \<Rightarrow> jsval"
  hljs_highlight :: "string \<Rightarrow> string \<Rightarrow> string"
  d3_scaleLog :: "jsval \<times> jsval \<Rightarrow> string \<times> string \<Rightarrow> jsval \<Rightarrow> string"
  style_setProperty :: "string \<Rightarrow> jsval \<Rightarrow> string option \<Rightarrow> string option"

text \<open>
  Line numbers and skip counts are integers; string \<open>+\<close> writes an integer in decimal,
  with a leading minus sign when it is negative.
\<close>

definition digit_char :: "nat \<Rightarrow> char" where
  "digit_char d = char_of (48 + d)"

function show_nat :: "nat \<Rightarrow> string" where
  "show_nat n = (if n < 10 then [digit_char n] else show_nat (n div 10) @ [digit_char (n mod 10)])"
  by pat_completeness auto
termination
  by (relation "measure id") auto

declare show_nat.simps [simp del]

definition show_int :: "int \<Rightarrow> string" where
  "show_int i = (if i < 0 then CHR ''-'' # show_nat (nat (- i)) else show_nat (nat i))"

text \<open>The number a decimal numeral stands for, to say what a written number shows.\<close>

definition digit_value :: "char \<Rightarrow> nat" where
  "digit_value ch = of_char ch - 48"

definition decimal_nat :: "string \<Rightarrow> nat" where
  "decimal_nat cs = foldl (\<lambda>a ch. 10 * a + digit_value ch) 0 cs"

definition decimal_int :: "string \<Rightarrow> int" where
  "decimal_int cs =
     (case cs of
        [] \<Rightarrow> 0
      | ch # rest \<Rightarrow> if ch = CHR ''-'' then - int (decimal_nat rest) else int (decimal_nat cs))"

section \<open>The report\<close>

text \<open>
  One element of \<open>stats.srcCode\<close> is \<open>['line', lineNumber, codeLine]\<close> or
  \<open>['skip', count]\<close>. The loop of \<open>renderCode_\<close> tests the tag against these two
  strings and passes over an element with any other tag, which is \<open>Other\<close> here.
\<close>

datatype src_entry = Line int string | Skip int | Other string

record file_stats =
  name :: string
  srcCode :: "src_entry list"
  heatmap :: "int \<rightharpoonup> jsval"
  executionCount :: "int \<rightharpoonup> jsval"

record report =
  runTime :: jsval
  heatmaps :: "file_stats list"

section \<open>The CodeHeatmap object\<close>

record code_heatmap =
  MIN_RUN_TIME :: jsval
  MAX_RUN_TIME :: jsval
  MIN_RUN_COLOR :: string
  MAX_RUN_COLOR :: string
  HELP_MESSAGE :: string
  data :: report
  heatmapScale :: "jsval \<Rightarrow> string"

text \<open>
  The constructor. A name cannot end in an underscore here, so \<open>data_\<close>,
  \<open>heatmapScale_\<close>, \<open>formatSrcLine_\<close>, \<open>renderCode_\<close>, \<open>showTooltip_\<close> and
  \<open>hideTooltip_\<close> are written without it. The parent element belongs to the page.
\<close>

definition CodeHeatmap :: "extern \<Rightarrow> report \<Rightarrow> code_heatmap" where
  "CodeHeatmap ext d =
     \<lparr> MIN_RUN_TIME = Number (Finite (1 / 1000000)),
       MAX_RUN_TIME = runTime d,
       MIN_RUN_COLOR = ''#ebfaeb'',
       MAX_RUN_COLOR = ''#47d147'',
       HELP_MESSAGE = ''<p>&#8226 Hover over line to see line execution count.</p>'',
       data = d,
       heatmapScale =
         d3_scaleLog ext (Number (Finite (1 / 1000000)), runTime d) (''#ebfaeb'', ''#47d147'') \<rparr>"

section \<open>formatSrcLine\<close>

text \<open>
  A call of the formatter, with all it does. The first component is the markup it
  returns. The second lists the arguments with which the call invoked
  \<open>this.heatmapScale_\<close>, in order: the conditional expression evaluates the scale only in
  its first branch. The third is the object as the call leaves it: the body has no
  assignment to a field of \<open>this\<close>, so that is the object the call was made on, and
  \<open>renderCode_\<close> goes on with it.
\<close>

definition formatSrcLine ::
  "extern \<Rightarrow> code_heatmap \<Rightarrow> int \<Rightarrow> string \<Rightarrow> jsval \<Rightarrow> string \<times> jsval list \<times> code_heatmap" where
  "formatSrcLine ext self lineNumber codeLine runCount =
     (let highlightedLine = hljs_highlight ext ''python'' codeLine;
          (backgroundColor, calls) =
             (if truthy runCount then (heatmapScale self runCount, [runCount]) else ('''', []))
      in (''<div class='heatmap-src-line-normal' style='background-color: '' @
            backgroundColor @ '''>'' @
            ''<div class='heatmap-src-line-number'>'' @ show_int lineNumber @ ''</div>'' @
            ''<div class='heatmap-src-line-code'>'' @ highlightedLine @ ''</div>'' @
          ''</div>'',
          calls,
          self))"

definition scale_calls :: "string \<times> jsval list \<times> code_heatmap \<Rightarrow> jsval list" where
  "scale_calls call = fst (snd call)"


section \<open>renderCode\<close>

text \<open>
  The local variables of \<open>renderCode_\<close>, and one pass of its loop body over the element
  \<open>stats.srcCode[i]\<close>. \<open>timeMap[srcIndex] = v\<close> stores the key \<open>srcIndex\<close> also when
  \<open>v\<close> is \<open>undefined\<close>.
\<close>

record loop_state =
  outputCode :: "string list"
  timeMap :: "nat \<rightharpoonup> jsval"
  srcIndex :: nat
  countMap :: "nat \<rightharpoonup> jsval"

record rendered_source =
  r_srcCode :: string
  r_timeMap :: "nat \<rightharpoonup> jsval"
  r_countMap :: "nat \<rightharpoonup> jsval"

fun renderCode_body :: "extern \<Rightarrow> code_heatmap \<Rightarrow> file_stats \<Rightarrow> src_entry \<Rightarrow> loop_state \<Rightarrow> loop_state" where
  "renderCode_body ext self stats (Line lineNumber codeLine) s =
     s\<lparr> outputCode :=
          outputCode s @ [fst (formatSrcLine ext self lineNumber codeLine (js_get (heatmap stats) lineNumber))],
        timeMap := (timeMap s)(srcIndex s \<mapsto> js_get (heatmap stats) lineNumber),
        countMap := (countMap s)(srcIndex s \<mapsto> js_get (executionCount stats) lineNumber),
        srcIndex := srcIndex s + 1 \<rparr>"
| "renderCode_body ext self stats (Skip n) s =
     s\<lparr> outputCode :=
          outputCode s @ [''<div class='heatmap-skip-line'>'' @ show_int n @ '' lines skipped</div>''] \<rparr>"
| "renderCode_body ext self stats (Other tag) s = s"

primrec renderCode_loop ::
  "extern \<Rightarrow> code_heatmap \<Rightarrow> file_stats \<Rightarrow> src_entry list \<Rightarrow> loop_state \<Rightarrow> loop_state" where
  "renderCode_loop ext self stats [] s = s"
| "renderCode_loop ext self stats (e # es) s =
     renderCode_loop ext self stats es (renderCode_body ext self stats e s)"

definition renderCode_init :: loop_state where
  "renderCode_init = \<lparr> outputCode = [], timeMap = Map.empty, srcIndex = 0, countMap = Map.empty \<rparr>"

definition renderCode :: "extern \<Rightarrow> code_heatmap \<Rightarrow> file_stats \<Rightarrow> rendered_source" where
  "renderCode ext self stats =
     (let s = renderCode_loop ext self stats (srcCode stats) renderCode_init
      in \<lparr> r_srcCode = concat (outputCode s), r_timeMap = timeMap s, r_countMap = countMap s \<rparr>)"

text \<open>
  The \<open>'line'\<close> entries of a file in their order, as (lineNumber, codeLine), the counts of
  its \<open>'skip'\<close> entries in their order, and the strings one pass of the loop body pushes
  onto \<open>outputCode\<close>.
\<close>

fun line_entries :: "src_entry list \<Rightarrow> (int \<times> string) list" where
  "line_entries [] = []"
| "line_entries (Line n c # es) = (n, c) # line_entries es"
| "line_entries (e # es) = line_entries es"

fun skip_counts :: "src_entry list \<Rightarrow> int list" where
  "skip_counts [] = []"
| "skip_counts (Skip n # es) = n # skip_counts es"
| "skip_counts (e # es) = skip_counts es"

definition entry_markup :: "extern \<Rightarrow> code_heatmap \<Rightarrow> file_stats \<Rightarrow> src_entry \<Rightarrow> string list" where
  "entry_markup ext self stats e = outputCode (renderCode_body ext self stats e renderCode_init)"

text \<open>The marker of a skipped block, as the loop body writes it.\<close>

definition skip_markup :: "int \<Rightarrow> string" where
  "skip_markup n = ''<div class='heatmap-skip-line'>'' @ show_int n @ '' lines skipped</div>''"

section \<open>The elements of a file container\<close>

text \<open>
  \<open>render\<close> hands \<open>srcCode\<close> to the browser with \<open>.html(...)\<close> and then selects elements
  by class. An element has a tag, attributes and children; \<open>Raw\<close> is content that the
  module does not build itself (a number written out, the highlighter's markup), taken
  to hold no element of the module's own classes. \<open>to_html\<close> writes an element the way
  the string literals of the module do, so the elements below are the ones whose
  markup \<open>renderCode_\<close> returns.
\<close>

datatype node = Elem string "(string \<times> string) list" "node list" | Raw string

fun attr_html :: "string \<times> string \<Rightarrow> string" where
  "attr_html (k, v) = '' '' @ k @ ''='' @ [CHR 0x27] @ v @ [CHR 0x27]"

fun to_html :: "node \<Rightarrow> string" where
  "to_html (Raw s) = s"
| "to_html (Elem tag attrs kids) =
     ''<'' @ tag @ concat (map attr_html attrs) @ ''>'' @ concat (map to_html kids) @
     ''</'' @ tag @ ''>''"

definition row_node :: "extern \<Rightarrow> code_heatmap \<Rightarrow> int \<Rightarrow> string \<Rightarrow> jsval \<Rightarrow> node" where
  "row_node ext self lineNumber codeLine runCount =
     Elem ''div''
       [(''class'', ''heatmap-src-line-normal''),
        (''style'', ''background-color: '' @ (if truthy runCount then heatmapScale self runCount else ''''))]
       [Elem ''div'' [(''class'', ''heatmap-src-line-number'')] [Raw (show_int lineNumber)],
        Elem ''div'' [(''class'', ''heatmap-src-line-code'')] [Raw (hljs_highlight ext ''python'' codeLine)]]"

definition skip_node :: "int \<Rightarrow> node" where
  "skip_node n = Elem ''div'' [(''class'', ''heatmap-skip-line'')] [Raw (show_int n @ '' lines skipped'')]"

fun entry_nodes :: "extern \<Rightarrow> code_heatmap \<Rightarrow> file_stats \<Rightarrow> src_entry \<Rightarrow> node list" where
  "entry_nodes ext self stats (Line lineNumber codeLine) =
     [row_node ext self lineNumber codeLine (js_get (heatmap stats) lineNumber)]"
| "entry_nodes ext self stats (Skip n) = [skip_node n]"
| "entry_nodes ext self stats (Other tag) = []"

definition file_nodes :: "extern \<Rightarrow> code_heatmap \<Rightarrow> file_stats \<Rightarrow> node list" where
  "file_nodes ext self stats = concat (map (entry_nodes ext self stats) (srcCode stats))"

text \<open>
  \<open>selection.selectAll('.c')\<close>: the descendants carrying the class \<open>c\<close>, in document
  order. Every element built here carries a single class name, so the class attribute is
  compared as a whole.
\<close>

fun select_class :: "string \<Rightarrow> node \<Rightarrow> node list" where
  "select_class c (Raw s) = []"
| "select_class c (Elem tag attrs kids) =
     (if map_of attrs ''class'' = Some c then [Elem tag attrs kids] else []) @
     concat (map (select_class c) kids)"

definition selectAll :: "string \<Rightarrow> node list \<Rightarrow> node list" where
  "selectAll c forest = concat (map (select_class c) forest)"

section \<open>render and the hover handlers\<close>

text \<open>
  What the handlers change on the page: the class attribute of a row, named by the index
  of its file and its index in the selection the handlers were bound to, and the class,
  the content and the \<open>left\<close> and \<open>top\<close> style declarations of the one tooltip.
  \<open>showTooltip_\<close> hands the pointer coordinates to \<open>.style\<close> as they are, numbers with
  no unit; what declaration results is the browser's matter.
\<close>

record mouse_event =
  pageX :: jsval
  pageY :: jsval

record ui_state =
  rowClass :: "nat \<times> nat \<Rightarrow> string"
  tooltipClass :: string
  tooltipHtml :: string
  tooltipLeft :: "string option"
  tooltipTop :: "string option"

definition showTooltip ::
  "extern \<Rightarrow> mouse_event \<Rightarrow> nat \<times> nat \<Rightarrow> jsval \<Rightarrow> jsval \<Rightarrow> jsval \<Rightarrow> ui_state \<Rightarrow> ui_state" where
  "showTooltip ext event element lineRuntime lineRuncount totalTime s =
     s\<lparr> rowClass := (rowClass s)(element := ''heatmap-src-line-highlight''),
        tooltipClass := ''content-tooltip content-tooltip-visible'',
        tooltipHtml :=
          ''<p><b>Time spent: </b>'' @ js_toString ext lineRuntime @ '' s</p>'' @
          ''<p><b>Total running time: </b>'' @ js_toString ext totalTime @ '' s</p>'' @
          ''<p><b>Percentage: </b>'' @
            js_toString ext (js_times ext (Number (Finite 100)) (js_divide ext lineRuntime totalTime)) @
            ''%</p>'' @
          ''<p><b>Run count: </b>'' @ js_toString ext lineRuncount @ ''</p>'',
        tooltipLeft := style_setProperty ext ''left'' (pageX event) (tooltipLeft s),
        tooltipTop := style_setProperty ext ''top'' (pageY event) (tooltipTop s) \<rparr>"

definition hideTooltip :: "nat \<times> nat \<Rightarrow> ui_state \<Rightarrow> ui_state" where
  "hideTooltip element s =
     s\<lparr> rowClass := (rowClass s)(element := ''heatmap-src-line-normal''),
        tooltipClass := ''content-tooltip content-tooltip-invisible'' \<rparr>"

text \<open>
  The part of \<open>render\<close> after the page chrome: the rendered sources, the content of each
  file container, and the tooltip as appended (hidden, empty, not positioned).
\<close>

record page =
  renderedSources :: "rendered_source list"
  fileContainers :: "node list list"
  ui :: ui_state

definition render :: "extern \<Rightarrow> code_heatmap \<Rightarrow> page" where
  "render ext self =
     \<lparr> renderedSources = map (renderCode ext self) (heatmaps (data self)),
       fileContainers = map (file_nodes ext self) (heatmaps (data self)),
       ui = \<lparr> rowClass = (\<lambda>element. ''heatmap-src-line-normal''),
              tooltipClass = ''content-tooltip content-tooltip-invisible'',
              tooltipHtml = '''',
              tooltipLeft = None,
              tooltipTop = None \<rparr> \<rparr>"

text \<open>
  The handlers are bound to the elements of class \<open>heatmap-src-line-normal\<close> of file
  container \<open>i\<close>; \<open>j\<close> is the index of the element in that selection. An event on
  anything else reaches no handler.
\<close>

definition bound_rows :: "page \<Rightarrow> nat \<Rightarrow> node list" where
  "bound_rows pg i =
     (if i < length (fileContainers pg) then selectAll ''heatmap-src-line-normal'' (fileContainers pg ! i)
      else [])"

definition on_mouseover ::
  "extern \<Rightarrow> code_heatmap \<Rightarrow> page \<Rightarrow> mouse_event \<Rightarrow> nat \<Rightarrow> nat \<Rightarrow> ui_state \<Rightarrow> ui_state" where
  "on_mouseover ext self pg event i j s =
     (if j < length (bound_rows pg i) then
        (if truthy (js_get (r_countMap (renderedSources pg ! i)) j)
         then showTooltip ext event (i, j)
                (js_get (r_timeMap (renderedSources pg ! i)) j)
                (js_get (r_countMap (renderedSources pg ! i)) j)
                (runTime (data self)) s
         else s)
      else s)"

definition on_mouseout :: "page \<Rightarrow> nat \<Rightarrow> nat \<Rightarrow> ui_state \<Rightarrow> ui_state" where
  "on_mouseout pg i j s = (if j < length (bound_rows pg i) then hideTooltip (i, j) s else s)"

section \<open>The color scale\<close>

text \<open>
  The two colors of the range: \<open>#ebfaeb\<close> is red 235, green 250, blue 235, and
  \<open>#47d147\<close> is red 71, green 209, blue 71.
\<close>

type_synonym rgb = "real \<times> real \<times> real"

definition light_rgb :: rgb where
  "light_rgb = (235, 250, 235)"

definition saturated_rgb :: rgb where
  "saturated_rgb = (71, 209, 71)"

text \<open>
  Modelled from the spec: the place of a time on the logarithmic scale built by
  \<open>d3scale.scaleLog().domain([lo, hi])\<close>, which is not among the sources. Section 4.1 of
  the spec has the mapper interpolate logarithmically between the two ends of the domain,
  so \<open>lo\<close> is at 0 and \<open>hi\<close> at 1; on a domain of a single point it has the mapper return
  an endpoint, and section 8 names the light one, which is the place 0.
\<close>

definition log_position :: "real \<Rightarrow> real \<Rightarrow> real \<Rightarrow> real" where
  "log_position lo hi t = (if ln (hi / lo) = 0 then 0 else ln (t / lo) / ln (hi / lo))"

text \<open>
  Modelled from the spec: the interpolation between two colors (section 4.1, between a
  fixed light color and a fixed saturated color), channel by channel, from the first
  color at 0 to the second at 1.
\<close>

definition interpolate_rgb :: "rgb \<Rightarrow> rgb \<Rightarrow> real \<Rightarrow> rgb" where
  "interpolate_rgb c0 c1 p =
     (case (c0, c1) of
        ((r0, g0, b0), (r1, g1, b1)) \<Rightarrow>
          (r0 + p * (r1 - r0), g0 + p * (g1 - g0), b0 + p * (b1 - b0)))"

text \<open>
  Modelled from the spec: the color mapper of a report, \<open>colorFor\<close> in section 4.1, as the
  constructor sets it up: the domain from \<open>MIN_RUN_TIME\<close> to the total run time, the range
  from \<open>MIN_RUN_COLOR\<close> to \<open>MAX_RUN_COLOR\<close>.
\<close>

definition colorFor :: "real \<Rightarrow> real \<Rightarrow> rgb" where
  "colorFor totalRunTime t =
     interpolate_rgb light_rgb saturated_rgb (log_position (1 / 1000000) totalRunTime t)"

text \<open>How far a color is from the light endpoint: the sum of the channel differences.\<close>

definition light_distance :: "rgb \<Rightarrow> real" where
  "light_distance c =
     (case (c, light_rgb) of
        ((r, g, b), (r0, g0, b0)) \<Rightarrow> \<bar>r - r0\<bar> + \<bar>g - g0\<bar> + \<bar>b - b0\<bar>)"

section \<open>A sample report\<close>

text \<open>
  Collaborators to evaluate the definitions with: the highlighter returns the line as it
  is, the scale returns one fixed color, numbers are written from a small table,
  \<open>*\<close> and \<open>/\<close> are exact on finite numbers, and a style declaration is left as it
  was (a number without a unit is not a length).
\<close>

definition sample_toString :: "jsval \<Rightarrow> string" where
  "sample_toString v =
     (case v of
        Undefined \<Rightarrow> ''undefined''
      | Number (Finite x) \<Rightarrow>
          (if x = 4 then ''4'' else if x = 5 then ''5'' else if x = 10 then ''10''
           else if x = 1 / 2 then ''0.5'' else ''number'')
      | Number PosInfinity \<Rightarrow> ''Infinity''
      | Number NegInfinity \<Rightarrow> ''-Infinity''
      | Number NaN \<Rightarrow> ''NaN'')"

definition sample_times :: "jsval \<Rightarrow> jsval \<Rightarrow> jsval" where
  "sample_times a b =
     (case (a, b) of
        (Number (Finite x), Number (Finite y)) \<Rightarrow> Number (Finite (x * y))
      | _ \<Rightarrow> Number NaN)"

definition sample_divide :: "jsval \<Rightarrow> jsval \<Rightarrow> jsval" where
  "sample_divide a b =
     (case (a, b) of
        (Number (Finite x), Number (Finite y)) \<Rightarrow> (if y = 0 then Number NaN else Number (Finite (x / y)))
      | _ \<Rightarrow> Number NaN)"

definition sample_ext :: extern where
  "sample_ext =
     \<lparr> js_toString = sample_toString,
       js_times = sample_times,
       js_divide = sample_divide,
       hljs_highlight = (\<lambda>lang code. code),
       d3_scaleLog = (\<lambda>d r v. ''rgb(200, 240, 200)''),
       style_setProperty = (\<lambda>property v declared. declared) \<rparr>"

text \<open>
  One file with the entries \<open>[['line', 1, 'a=1'], ['skip', 3], ['line', 5, 'b=2']]\<close>,
  time 0.5 and count 4 recorded for line 1 and nothing for line 5; total run time 10.
\<close>

definition sample_stats :: file_stats where
  "sample_stats =
     \<lparr> name = ''a.py'',
       srcCode = [Line 1 ''a=1'', Skip 3, Line 5 ''b=2''],
       heatmap = [1 \<mapsto> Number (Finite (1 / 2))],
       executionCount = [1 \<mapsto> Number (Finite 4)] \<rparr>"

definition sample_report :: report where
  "sample_report = \<lparr> runTime = Number (Finite 10), heatmaps = [sample_stats] \<rparr>"

definition sample_self :: code_heatmap where
  "sample_self = CodeHeatmap sample_ext sample_report"

text \<open>A pointer position for the hover events.\<close>

definition sample_event :: mouse_event where
  "sample_event = \<lparr> pageX = Number (Finite 10), pageY = Number (Finite 5) \<rparr>"


text \<open>A file whose table records a negative time for line 5.\<close>

definition negative_stats :: file_stats where
  "negative_stats =
     \<lparr> name = ''c.py'',
       srcCode = [Line 5 ''b=2''],
       heatmap = [5 \<mapsto> Number (Finite (- 1))],
       executionCount = [5 \<mapsto> Number (Finite 1)] \<rparr>"

text \<open>A file in which every entry is a skip.\<close>

definition skipped_stats :: file_stats where
  "skipped_stats =
     \<lparr> name = ''b.py'', srcCode = [Skip 3, Skip 12], heatmap = Map.empty, executionCount = Map.empty \<rparr>"

section \<open>The loop of renderCode\<close>

lemma renderCode_loop_append:
  "renderCode_loop ext self stats (xs @ ys) s =
     renderCode_loop ext self stats ys (renderCode_loop ext self stats xs s)"
  by (induction xs arbitrary: s) simp_all

lemma srcIndex_loop:
  "srcIndex (renderCode_loop ext self stats es s) = srcIndex s + length (line_entries es)"
proof (induction es arbitrary: s)
  case Nil
  show ?case by simp
next
  case (Cons e es)
  show ?case by (cases e) (simp_all add: Cons.IH)
qed

lemma timeMap_loop:
  "timeMap (renderCode_loop ext self stats es s) k =
     (if srcIndex s \<le> k \<and> k < srcIndex s + length (line_entries es)
      then Some (js_get (heatmap stats) (fst (line_entries es ! (k - srcIndex s))))
      else timeMap s k)"
proof (induction es arbitrary: s)
  case Nil
  show ?case by auto
next
  case (Cons e es)
  show ?case
  proof (cases e)
    case (Line n c)
    then show ?thesis
      by (auto simp add: Cons.IH nth_Cons' Suc_diff_le)
  next
    case (Skip n)
    then show ?thesis by (simp add: Cons.IH)
  next
    case (Other t)
    then show ?thesis by (simp add: Cons.IH)
  qed
qed

lemma countMap_loop:
  "countMap (renderCode_loop ext self stats es s) k =
     (if srcIndex s \<le> k \<and> k < srcIndex s + length (line_entries es)
      then Some (js_get (executionCount stats) (fst (line_entries es ! (k - srcIndex s))))
      else countMap s k)"
proof (induction es arbitrary: s)
  case Nil
  show ?case by auto
next
  case (Cons e es)
  show ?case
  proof (cases e)
    case (Line n c)
    then show ?thesis
      by (auto simp add: Cons.IH nth_Cons' Suc_diff_le)
  next
    case (Skip n)
    then show ?thesis by (simp add: Cons.IH)
  next
    case (Other t)
    then show ?thesis by (simp add: Cons.IH)
  qed
qed

lemma outputCode_body:
  "outputCode (renderCode_body ext self stats e s) = outputCode s @ entry_markup ext self stats e"
  by (cases e) (simp_all add: renderCode_init_def entry_markup_def)

lemma outputCode_loop:
  "outputCode (renderCode_loop ext self stats es s) =
     outputCode s @ concat (map (entry_markup ext self stats) es)"
proof (induction es arbitrary: s)
  case Nil
  show ?case by simp
next
  case (Cons e es)
  show ?case
    unfolding renderCode_loop.simps Cons.IH outputCode_body by simp
qed

lemma dom_timeMap_loop:
  "dom (timeMap (renderCode_loop ext self stats es renderCode_init)) = {0..<length (line_entries es)}"
  by (auto simp add: dom_def timeMap_loop renderCode_init_def)

lemma dom_countMap_loop:
  "dom (countMap (renderCode_loop ext self stats es renderCode_init)) = {0..<length (line_entries es)}"
  by (auto simp add: dom_def countMap_loop renderCode_init_def)

lemma srcIndex_loop_init:
  "srcIndex (renderCode_loop ext self stats es renderCode_init) = length (line_entries es)"
  by (simp add: srcIndex_loop renderCode_init_def)

lemma r_timeMap_renderCode:
  "r_timeMap (renderCode ext self stats) =
     timeMap (renderCode_loop ext self stats (srcCode stats) renderCode_init)"
  by (simp add: renderCode_def Let_def)

lemma r_countMap_renderCode:
  "r_countMap (renderCode ext self stats) =
     countMap (renderCode_loop ext self stats (srcCode stats) renderCode_init)"
  by (simp add: renderCode_def Let_def)

lemma r_srcCode_renderCode:
  "r_srcCode (renderCode ext self stats) =
     concat (concat (map (entry_markup ext self stats) (srcCode stats)))"
  by (simp add: renderCode_def Let_def outputCode_loop renderCode_init_def)

section \<open>The line reindexer\<close>

text \<open>
  Claim C1. The reindexer gives every \<open>'line'\<close> entry one position, 0, 1, ..., N - 1 in the
  order of the entries, N being the number of \<open>'line'\<close> entries: the keys of both tables
  are exactly 0 to N - 1, and wherever the source list splits as \<open>pre @ e # post\<close>, the
  counter stands at the number of \<open>'line'\<close> entries of \<open>pre\<close> when the loop reaches
  \<open>e\<close>. A \<open>'line'\<close> entry stores that one key in each table and advances the counter
  by one; a \<open>'skip'\<close> entry (and an entry with any other tag) leaves the counter and both
  tables as they were.
\<close>

theorem reindexer_positions:
  "dom (r_timeMap (renderCode ext self stats)) = {0..<length (line_entries (srcCode stats))} \<and>
   dom (r_countMap (renderCode ext self stats)) = {0..<length (line_entries (srcCode stats))} \<and>
   (\<forall>pre e post. srcCode stats = pre @ e # post \<longrightarrow>
      (let s = renderCode_loop ext self stats pre renderCode_init;
           s' = renderCode_body ext self stats e s
       in srcIndex s = length (line_entries pre) \<and>
          (case e of
             Line n c \<Rightarrow>
               srcIndex s' = srcIndex s + 1 \<and>
               dom (timeMap s') = insert (srcIndex s) (dom (timeMap s)) \<and>
               dom (countMap s') = insert (srcIndex s) (dom (countMap s))
           | Skip n \<Rightarrow>
               srcIndex s' = srcIndex s \<and> timeMap s' = timeMap s \<and> countMap s' = countMap s
           | Other t \<Rightarrow>
               srcIndex s' = srcIndex s \<and> timeMap s' = timeMap s \<and> countMap s' = countMap s)))"
proof (intro conjI allI impI)
  show "dom (r_timeMap (renderCode ext self stats)) = {0..<length (line_entries (srcCode stats))}"
    by (simp add: r_timeMap_renderCode dom_timeMap_loop)
  show "dom (r_countMap (renderCode ext self stats)) = {0..<length (line_entries (srcCode stats))}"
    by (simp add: r_countMap_renderCode dom_countMap_loop)
next
  fix pre e post
  assume "srcCode stats = pre @ e # post"
  show "let s = renderCode_loop ext self stats pre renderCode_init;
            s' = renderCode_body ext self stats e s
        in srcIndex s = length (line_entries pre) \<and>
           (case e of
              Line n c \<Rightarrow>
                srcIndex s' = srcIndex s + 1 \<and>
                dom (timeMap s') = insert (srcIndex s) (dom (timeMap s)) \<and>
                dom (countMap s') = insert (srcIndex s) (dom (countMap s))
            | Skip n \<Rightarrow>
                srcIndex s' = srcIndex s \<and> timeMap s' = timeMap s \<and> countMap s' = countMap s
            | Other t \<Rightarrow>
                srcIndex s' = srcIndex s \<and> timeMap s' = timeMap s \<and> countMap s' = countMap s)"
    by (cases e) (simp_all add: Let_def srcIndex_loop_init)
qed

text \<open>
  On the sample file the second \<open>'line'\<close> entry, after one line and one skip, is reached
  with the counter at 1, and the tables have the keys 0 and 1.
\<close>

theorem reindexer_positions_witness:
  "srcCode sample_stats = [Line 1 ''a=1'', Skip 3] @ Line 5 ''b=2'' # [] \<and>
   srcIndex (renderCode_loop sample_ext sample_self sample_stats [Line 1 ''a=1'', Skip 3] renderCode_init) = 1 \<and>
   srcIndex (renderCode_loop sample_ext sample_self sample_stats [Line 1 ''a=1'', Skip 3, Line 5 ''b=2''] renderCode_init) = 2 \<and>
   dom (r_timeMap (renderCode sample_ext sample_self sample_stats)) = {0..<2}"
proof -
  have split: "srcCode sample_stats = [Line 1 ''a=1'', Skip 3] @ Line 5 ''b=2'' # []"
    by (simp add: sample_stats_def)
  note T = reindexer_positions [of sample_ext sample_self sample_stats]
  from T have "dom (r_timeMap (renderCode sample_ext sample_self sample_stats)) =
      {0..<length (line_entries (srcCode sample_stats))}"
    by (rule conjunct1)
  moreover have "length (line_entries (srcCode sample_stats)) = 2"
    by (simp add: sample_stats_def)
  ultimately have keys: "dom (r_timeMap (renderCode sample_ext sample_self sample_stats)) = {0..<2}"
    by (simp only:)
  from T have "\<forall>pre e post. srcCode sample_stats = pre @ e # post \<longrightarrow>
      (let s = renderCode_loop sample_ext sample_self sample_stats pre renderCode_init;
           s' = renderCode_body sample_ext sample_self sample_stats e s
       in srcIndex s = length (line_entries pre) \<and>
          (case e of
             Line n c \<Rightarrow>
               srcIndex s' = srcIndex s + 1 \<and>
               dom (timeMap s') = insert (srcIndex s) (dom (timeMap s)) \<and>
               dom (countMap s') = insert (srcIndex s) (dom (countMap s))
           | Skip n \<Rightarrow>
               srcIndex s' = srcIndex s \<and> timeMap s' = timeMap s \<and> countMap s' = countMap s
           | Other t \<Rightarrow>
               srcIndex s' = srcIndex s \<and> timeMap s' = timeMap s \<and> countMap s' = countMap s))"
    by (rule conjunct2 [THEN conjunct2])
  from this [rule_format, OF split]
  have at: "srcIndex (renderCode_loop sample_ext sample_self sample_stats [Line 1 ''a=1'', Skip 3] renderCode_init) = 1"
    and after: "srcIndex (renderCode_loop sample_ext sample_self sample_stats [Line 1 ''a=1'', Skip 3, Line 5 ''b=2''] renderCode_init) = 2"
    by (simp_all add: Let_def)
  from split at after keys show ?thesis by simp
qed

lemma timeMap_at_entry:
  "timeMap (renderCode_loop ext self stats (pre @ Line n c # post) renderCode_init)
     (srcIndex (renderCode_loop ext self stats pre renderCode_init)) = Some (js_get (heatmap stats) n)"
  by (simp add: renderCode_loop_append timeMap_loop)

lemma countMap_at_entry:
  "countMap (renderCode_loop ext self stats (pre @ Line n c # post) renderCode_init)
     (srcIndex (renderCode_loop ext self stats pre renderCode_init)) = Some (js_get (executionCount stats) n)"
  by (simp add: renderCode_loop_append countMap_loop)

text \<open>
  Claim C2. For a \<open>'line'\<close> entry whose line number has a recorded time and a recorded
  count, reading the returned tables at the position the entry was given (the value of
  the counter when the loop reached it) gives exactly these two values: \<open>timeMap[position]\<close>
  is \<open>heatmap[lineNumber]\<close> and \<open>countMap[position]\<close> is \<open>executionCount[lineNumber]\<close>.
\<close>

theorem lookup_round_trip:
  assumes "srcCode stats = pre @ Line n c # post"
    and "heatmap stats n = Some t"
    and "executionCount stats n = Some cnt"
  shows "js_get (r_timeMap (renderCode ext self stats))
           (srcIndex (renderCode_loop ext self stats pre renderCode_init)) = t \<and>
         js_get (r_countMap (renderCode ext self stats))
           (srcIndex (renderCode_loop ext self stats pre renderCode_init)) = cnt \<and>
         js_get (r_timeMap (renderCode ext self stats))
           (srcIndex (renderCode_loop ext self stats pre renderCode_init)) = js_get (heatmap stats) n \<and>
         js_get (r_countMap (renderCode ext self stats))
           (srcIndex (renderCode_loop ext self stats pre renderCode_init)) = js_get (executionCount stats) n"
  using assms
  by (simp add: r_timeMap_renderCode r_countMap_renderCode timeMap_at_entry countMap_at_entry js_get_def)

text \<open>On the sample file: line 1 is at position 0, with time 0.5 and count 4.\<close>

theorem lookup_round_trip_witness:
  "srcCode sample_stats = [] @ Line 1 ''a=1'' # [Skip 3, Line 5 ''b=2''] \<and>
   heatmap sample_stats 1 = Some (Number (Finite (1 / 2))) \<and>
   executionCount sample_stats 1 = Some (Number (Finite 4)) \<and>
   srcIndex (renderCode_loop sample_ext sample_self sample_stats [] renderCode_init) = 0 \<and>
   js_get (r_timeMap (renderCode sample_ext sample_self sample_stats)) 0 = Number (Finite (1 / 2)) \<and>
   js_get (r_countMap (renderCode sample_ext sample_self sample_stats)) 0 = Number (Finite 4)"
proof -
  have split: "srcCode sample_stats = [] @ Line 1 ''a=1'' # [Skip 3, Line 5 ''b=2'']"
    by (simp add: sample_stats_def)
  have time: "heatmap sample_stats 1 = Some (Number (Finite (1 / 2)))"
    by (simp add: sample_stats_def)
  have count: "executionCount sample_stats 1 = Some (Number (Finite 4))"
    by (simp add: sample_stats_def)
  have pos: "srcIndex (renderCode_loop sample_ext sample_self sample_stats [] renderCode_init) = 0"
    by (simp add: renderCode_init_def)
  from lookup_round_trip [OF split time count, of sample_ext sample_self] split time count pos
  show ?thesis by simp
qed

section \<open>A file with no line entries\<close>

lemma no_lines_line_entries:
  "\<forall>e\<in>set es. \<forall>n c. e \<noteq> Line n c \<Longrightarrow> line_entries es = []"
  by (induction es rule: line_entries.induct) simp_all

lemma entry_markup_Skip: "entry_markup ext self stats (Skip n) = [skip_markup n]"
  by (simp add: entry_markup_def renderCode_init_def skip_markup_def)

lemma entry_markup_Other: "entry_markup ext self stats (Other t) = []"
  by (simp add: entry_markup_def renderCode_init_def)

lemma entry_markup_Line:
  "entry_markup ext self stats (Line n c) =
     [fst (formatSrcLine ext self n c (js_get (heatmap stats) n))]"
  by (simp add: entry_markup_def renderCode_init_def)

lemma no_lines_markup:
  "\<forall>e\<in>set es. \<forall>n c. e \<noteq> Line n c \<Longrightarrow>
     concat (concat (map (entry_markup ext self stats) es)) =
     concat (map skip_markup
               (skip_counts es))"
proof (induction es)
  case Nil
  show ?case by simp
next
  case (Cons e es)
  then have IH: "concat (concat (map (entry_markup ext self stats) es)) =
     concat (map skip_markup
               (skip_counts es))"
    by simp
  show ?case
  proof (cases e)
    case (Line n c)
    with Cons.prems show ?thesis by simp
  next
    case (Skip n)
    then show ?thesis
      by (simp add: IH entry_markup_Skip entry_markup_Other)
  next
    case (Other t)
    then show ?thesis
      by (simp add: IH entry_markup_Skip entry_markup_Other)
  qed
qed

text \<open>
  Claim C10. For a file whose source entries hold no \<open>'line'\<close> entry (every entry is a
  \<open>'skip'\<close>), \<open>renderCode_\<close> returns empty \<open>timeMap\<close> and \<open>countMap\<close> and the markup
  that is exactly the skip markers, one after the other in the order of the entries. The
  function has no failing branch, so it returns on every such file.
\<close>

theorem all_skipped_file:
  assumes "\<forall>e\<in>set (srcCode stats). \<forall>n c. e \<noteq> Line n c"
  shows "r_timeMap (renderCode ext self stats) = Map.empty \<and>
         r_countMap (renderCode ext self stats) = Map.empty \<and>
         r_srcCode (renderCode ext self stats) =
           concat (map skip_markup
                     (skip_counts (srcCode stats)))"
proof -
  have none: "line_entries (srcCode stats) = []"
    using assms by (rule no_lines_line_entries)
  have "dom (r_timeMap (renderCode ext self stats)) = {}"
    by (simp add: r_timeMap_renderCode dom_timeMap_loop none)
  then have time: "r_timeMap (renderCode ext self stats) = Map.empty"
    by simp
  have "dom (r_countMap (renderCode ext self stats)) = {}"
    by (simp add: r_countMap_renderCode dom_countMap_loop none)
  then have count: "r_countMap (renderCode ext self stats) = Map.empty"
    by simp
  have markup: "r_srcCode (renderCode ext self stats) =
           concat (map skip_markup
                     (skip_counts (srcCode stats)))"
    unfolding r_srcCode_renderCode using assms by (rule no_lines_markup)
  from time count markup show ?thesis by simp
qed

lemma show_int_3: "show_int 3 = ''3''"
  by code_simp

lemma show_int_12: "show_int 12 = ''12''"
  by code_simp

text \<open>The file with the entries \<open>[['skip', 3], ['skip', 12]]\<close>.\<close>

theorem all_skipped_file_witness:
  "srcCode skipped_stats = [Skip 3, Skip 12] \<and>
   r_timeMap (renderCode sample_ext sample_self skipped_stats) = Map.empty \<and>
   r_countMap (renderCode sample_ext sample_self skipped_stats) = Map.empty \<and>
   r_srcCode (renderCode sample_ext sample_self skipped_stats) =
     ''<div class='heatmap-skip-line'>3 lines skipped</div><div class='heatmap-skip-line'>12 lines skipped</div>''"
proof -
  have entries: "srcCode skipped_stats = [Skip 3, Skip 12]"
    by (simp add: skipped_stats_def)
  then have "\<forall>e\<in>set (srcCode skipped_stats). \<forall>n c. e \<noteq> Line n c"
    by simp
  from all_skipped_file [OF this, of sample_ext sample_self] entries
  show ?thesis by (simp add: skip_markup_def show_int_3 show_int_12)
qed

section \<open>Written numbers\<close>

lemma digit_value_digit_char: "d < 10 \<Longrightarrow> digit_value (digit_char d) = d"
  by (simp add: digit_value_def digit_char_def)

lemma decimal_nat_snoc: "decimal_nat (cs @ [ch]) = 10 * decimal_nat cs + digit_value ch"
  by (simp add: decimal_nat_def)

lemma decimal_nat_show_nat: "decimal_nat (show_nat n) = n"
proof (induction n rule: show_nat.induct)
  case (1 n)
  show ?case
  proof (cases "n < 10")
    case True
    then have "show_nat n = [digit_char n]"
      by (simp add: show_nat.simps)
    then show ?thesis
      using True by (simp add: decimal_nat_def digit_value_digit_char)
  next
    case False
    then have step: "show_nat n = show_nat (n div 10) @ [digit_char (n mod 10)]"
      by (subst show_nat.simps) simp
    from False have "decimal_nat (show_nat (n div 10)) = n div 10"
      by (rule "1.IH")
    then show ?thesis
      by (simp add: step decimal_nat_snoc digit_value_digit_char)
  qed
qed

lemma show_nat_first: "\<exists>d cs. d < 10 \<and> show_nat n = digit_char d # cs"
proof (induction n rule: show_nat.induct)
  case (1 n)
  show ?case
  proof (cases "n < 10")
    case True
    then have "show_nat n = [digit_char n]"
      by (simp add: show_nat.simps)
    with True show ?thesis by blast
  next
    case False
    then have step: "show_nat n = show_nat (n div 10) @ [digit_char (n mod 10)]"
      by (subst show_nat.simps) simp
    from False obtain d cs where "d < 10" and "show_nat (n div 10) = digit_char d # cs"
      using "1.IH" by blast
    then show ?thesis
      by (auto simp add: step)
  qed
qed

lemma digit_char_not_minus: "d < 10 \<Longrightarrow> digit_char d \<noteq> CHR ''-''"
proof
  assume d: "d < 10" and eq: "digit_char d = CHR ''-''"
  from eq have "(of_char (digit_char d) :: nat) = of_char (CHR ''-'')" by simp
  with d show False by (simp add: digit_char_def)
qed

lemma decimal_int_show_int: "decimal_int (show_int i) = i"
proof (cases "i < 0")
  case True
  then show ?thesis
    by (simp add: show_int_def decimal_int_def decimal_nat_show_nat)
next
  case False
  obtain d cs where d: "d < 10" and first: "show_nat (nat i) = digit_char d # cs"
    using show_nat_first by blast
  have "decimal_nat (show_nat (nat i)) = nat i"
    by (rule decimal_nat_show_nat)
  then have "decimal_nat (digit_char d # cs) = nat i"
    by (simp only: first)
  with False d show ?thesis
    by (simp add: show_int_def decimal_int_def first digit_char_not_minus)
qed

section \<open>The elements and their markup\<close>

lemma to_html_row_node:
  "to_html (row_node ext self n c t) = fst (formatSrcLine ext self n c t)"
  by (simp add: row_node_def formatSrcLine_def Let_def)

lemma to_html_skip_node: "to_html (skip_node n) = skip_markup n"
  by (simp add: skip_node_def skip_markup_def)

lemma entry_nodes_markup:
  "map to_html (entry_nodes ext self stats e) = entry_markup ext self stats e"
  by (cases e)
     (simp_all add: to_html_row_node to_html_skip_node entry_markup_Line entry_markup_Skip
        entry_markup_Other)

lemma file_nodes_markup:
  "concat (map to_html (file_nodes ext self stats)) = r_srcCode (renderCode ext self stats)"
proof -
  have "map to_html (concat (map (entry_nodes ext self stats) es)) =
          concat (map (entry_markup ext self stats) es)" for es
    by (induction es) (simp_all add: entry_nodes_markup)
  then show ?thesis
    by (simp add: file_nodes_def r_srcCode_renderCode)
qed

lemma select_row_node:
  "select_class ''heatmap-src-line-normal'' (row_node ext self n c t) = [row_node ext self n c t]"
  by (simp add: row_node_def)

lemma select_skip_node: "select_class ''heatmap-src-line-normal'' (skip_node n) = []"
  by (simp add: skip_node_def)

lemma selectAll_entries:
  "selectAll ''heatmap-src-line-normal'' (concat (map (entry_nodes ext self stats) es)) =
     map (\<lambda>(n, c). row_node ext self n c (js_get (heatmap stats) n)) (line_entries es)"
proof (induction es)
  case Nil
  show ?case by (simp add: selectAll_def)
next
  case (Cons e es)
  then have IH: "concat (map (select_class ''heatmap-src-line-normal'')
                   (concat (map (entry_nodes ext self stats) es))) =
     map (\<lambda>(n, c). row_node ext self n c (js_get (heatmap stats) n)) (line_entries es)"
    by (simp add: selectAll_def)
  show ?case
    by (cases e) (simp_all add: selectAll_def IH select_row_node select_skip_node)
qed

lemma bound_rows_render:
  "bound_rows (render ext self) i =
     (if i < length (heatmaps (data self))
      then map (\<lambda>(n, c). row_node ext self n c (js_get (heatmap (heatmaps (data self) ! i)) n))
             (line_entries (srcCode (heatmaps (data self) ! i)))
      else [])"
  by (simp add: bound_rows_def render_def file_nodes_def selectAll_entries)

lemma skip_node_not_row_node: "skip_node m \<noteq> row_node ext self n c t"
  by (simp add: row_node_def skip_node_def)

lemma select_skip_in_row:
  "select_class ''heatmap-skip-line'' (row_node ext self n c t) = []"
  by (simp add: row_node_def)

lemma select_skip_in_skip:
  "select_class ''heatmap-skip-line'' (skip_node n) = [skip_node n]"
  by (simp add: skip_node_def)

lemma selectAll_skip_entries:
  "selectAll ''heatmap-skip-line'' (concat (map (entry_nodes ext self stats) es)) =
     map skip_node (skip_counts es)"
proof (induction es)
  case Nil
  show ?case by (simp add: selectAll_def)
next
  case (Cons e es)
  then have IH: "concat (map (select_class ''heatmap-skip-line'')
                   (concat (map (entry_nodes ext self stats) es))) =
     map skip_node (skip_counts es)"
    by (simp add: selectAll_def)
  show ?case
    by (cases e) (simp_all add: selectAll_def IH select_skip_in_row select_skip_in_skip)
qed

lemma entry_markup_srcCode_update:
  "entry_markup ext self (stats\<lparr>srcCode := es\<rparr>) = entry_markup ext self stats"
proof
  fix e
  show "entry_markup ext self (stats\<lparr>srcCode := es\<rparr>) e = entry_markup ext self stats e"
    by (cases e) (simp_all add: entry_markup_def)
qed

lemma r_srcCode_entries:
  "r_srcCode (renderCode ext self (stats\<lparr>srcCode := es\<rparr>)) =
     concat (concat (map (entry_markup ext self stats) es))"
  by (simp add: r_srcCode_renderCode entry_markup_srcCode_update)

lemma r_srcCode_at_skip:
  assumes "srcCode stats = pre @ Skip n # post"
  shows "r_srcCode (renderCode ext self stats) =
           r_srcCode (renderCode ext self (stats\<lparr>srcCode := pre\<rparr>)) @
           skip_markup n @
           r_srcCode (renderCode ext self (stats\<lparr>srcCode := post\<rparr>))"
  by (simp add: r_srcCode_renderCode entry_markup_srcCode_update assms entry_markup_Skip)

text \<open>
  Claim C8. In the content of a file container, the elements of class
  \<open>heatmap-skip-line\<close> are the markers of the \<open>'skip'\<close> entries of the file, one for each
  entry and in their order, and the markup of the content is the string \<open>renderCode_\<close>
  returns. Where the entries split as \<open>pre @ ['skip', n] # post\<close>, that string is the
  markup of \<open>pre\<close>, then \<open><div class='heatmap-skip-line'>n lines skipped</div>\<close>, then the
  markup of \<open>post\<close>. The marker is the markup of its element, and the number written in
  it reads back as the count of the entry. No marker is among the rows the hover handlers
  are bound to, in any file container.
\<close>

theorem skip_marker_rendering:
  "selectAll ''heatmap-skip-line'' (file_nodes ext self stats) =
     map skip_node (skip_counts (srcCode stats)) \<and>
   concat (map to_html (file_nodes ext self stats)) = r_srcCode (renderCode ext self stats) \<and>
   (\<forall>pre n post. srcCode stats = pre @ Skip n # post \<longrightarrow>
      r_srcCode (renderCode ext self stats) =
        r_srcCode (renderCode ext self (stats\<lparr>srcCode := pre\<rparr>)) @
        (''<div class='heatmap-skip-line'>'' @ show_int n @ '' lines skipped</div>'') @
        r_srcCode (renderCode ext self (stats\<lparr>srcCode := post\<rparr>))) \<and>
   to_html (skip_node m) = ''<div class='heatmap-skip-line'>'' @ show_int m @ '' lines skipped</div>'' \<and>
   decimal_int (show_int m) = m \<and>
   (\<forall>i. skip_node m \<notin> set (bound_rows (render ext self) i))"
proof -
  have markers: "selectAll ''heatmap-skip-line'' (file_nodes ext self stats) =
     map skip_node (skip_counts (srcCode stats))"
    by (simp add: file_nodes_def selectAll_skip_entries)
  have place: "\<forall>pre n post. srcCode stats = pre @ Skip n # post \<longrightarrow>
      r_srcCode (renderCode ext self stats) =
        r_srcCode (renderCode ext self (stats\<lparr>srcCode := pre\<rparr>)) @
        (''<div class='heatmap-skip-line'>'' @ show_int n @ '' lines skipped</div>'') @
        r_srcCode (renderCode ext self (stats\<lparr>srcCode := post\<rparr>))"
    using r_srcCode_at_skip [of stats] unfolding skip_markup_def by blast
  have written: "to_html (skip_node m) =
      ''<div class='heatmap-skip-line'>'' @ show_int m @ '' lines skipped</div>''"
    using to_html_skip_node [of m] unfolding skip_markup_def .
  have unbound: "\<forall>i. skip_node m \<notin> set (bound_rows (render ext self) i)"
    by (auto simp add: bound_rows_render skip_node_not_row_node)
  from markers file_nodes_markup place written decimal_int_show_int unbound
  show ?thesis by blast
qed

lemma show_int_1: "show_int 1 = ''1''"
  by code_simp

lemma show_int_5: "show_int 5 = ''5''"
  by code_simp

lemma sample_scale: "heatmapScale sample_self v = ''rgb(200, 240, 200)''"
  by (simp add: sample_self_def CodeHeatmap_def sample_ext_def)

lemma sample_highlight: "hljs_highlight sample_ext lang code = code"
  by (simp add: sample_ext_def)

lemma sample_before_skip:
  "r_srcCode (renderCode sample_ext sample_self (sample_stats\<lparr>srcCode := [Line 1 ''a=1'']\<rparr>)) =
     ''<div class='heatmap-src-line-normal' style='background-color: rgb(200, 240, 200)'><div class='heatmap-src-line-number'>1</div><div class='heatmap-src-line-code'>a=1</div></div>''"
  unfolding r_srcCode_entries
  by (simp add: entry_markup_Line formatSrcLine_def Let_def sample_stats_def
        js_get_def sample_scale sample_highlight show_int_1)

lemma sample_after_skip:
  "r_srcCode (renderCode sample_ext sample_self (sample_stats\<lparr>srcCode := [Line 5 ''b=2'']\<rparr>)) =
     ''<div class='heatmap-src-line-normal' style='background-color: '><div class='heatmap-src-line-number'>5</div><div class='heatmap-src-line-code'>b=2</div></div>''"
  unfolding r_srcCode_entries
  by (simp add: entry_markup_Line formatSrcLine_def Let_def sample_stats_def
        js_get_def sample_highlight show_int_5)

text \<open>
  The sample file renders as its first row, the marker \<open>3 lines skipped\<close>, and its second
  row; the marker is the one element of its class and no handler is bound to it.
\<close>

theorem skip_marker_rendering_witness:
  "srcCode sample_stats = [Line 1 ''a=1''] @ Skip 3 # [Line 5 ''b=2''] \<and>
   r_srcCode (renderCode sample_ext sample_self sample_stats) =
     ''<div class='heatmap-src-line-normal' style='background-color: rgb(200, 240, 200)'><div class='heatmap-src-line-number'>1</div><div class='heatmap-src-line-code'>a=1</div></div><div class='heatmap-skip-line'>3 lines skipped</div><div class='heatmap-src-line-normal' style='background-color: '><div class='heatmap-src-line-number'>5</div><div class='heatmap-src-line-code'>b=2</div></div>'' \<and>
   selectAll ''heatmap-skip-line'' (file_nodes sample_ext sample_self sample_stats) = [skip_node 3] \<and>
   to_html (skip_node 3) = ''<div class='heatmap-skip-line'>3 lines skipped</div>'' \<and>
   skip_node 3 \<notin> set (bound_rows (render sample_ext sample_self) 0)"
proof -
  have split: "srcCode sample_stats = [Line 1 ''a=1''] @ Skip 3 # [Line 5 ''b=2'']"
    by (simp add: sample_stats_def)
  note T = skip_marker_rendering [of sample_ext sample_self sample_stats 3]
  from T split have "r_srcCode (renderCode sample_ext sample_self sample_stats) =
        r_srcCode (renderCode sample_ext sample_self (sample_stats\<lparr>srcCode := [Line 1 ''a=1'']\<rparr>)) @
        (''<div class='heatmap-skip-line'>'' @ show_int 3 @ '' lines skipped</div>'') @
        r_srcCode (renderCode sample_ext sample_self (sample_stats\<lparr>srcCode := [Line 5 ''b=2'']\<rparr>))"
    by blast
  then have whole: "r_srcCode (renderCode sample_ext sample_self sample_stats) =
     ''<div class='heatmap-src-line-normal' style='background-color: rgb(200, 240, 200)'><div class='heatmap-src-line-number'>1</div><div class='heatmap-src-line-code'>a=1</div></div><div class='heatmap-skip-line'>3 lines skipped</div><div class='heatmap-src-line-normal' style='background-color: '><div class='heatmap-src-line-number'>5</div><div class='heatmap-src-line-code'>b=2</div></div>''"
    by (simp add: sample_before_skip sample_after_skip show_int_3)
  from T have "selectAll ''heatmap-skip-line'' (file_nodes sample_ext sample_self sample_stats) =
     map skip_node (skip_counts (srcCode sample_stats))"
    by blast
  then have markers: "selectAll ''heatmap-skip-line'' (file_nodes sample_ext sample_self sample_stats) =
     [skip_node 3]"
    by (simp add: sample_stats_def)
  from T have "to_html (skip_node 3) =
      ''<div class='heatmap-skip-line'>'' @ show_int 3 @ '' lines skipped</div>''"
    by blast
  then have written: "to_html (skip_node 3) = ''<div class='heatmap-skip-line'>3 lines skipped</div>''"
    by (simp add: show_int_3)
  from T have unbound: "skip_node 3 \<notin> set (bound_rows (render sample_ext sample_self) 0)"
    by blast
  from split whole markers written unbound show ?thesis by blast
qed

section \<open>The line formatter\<close>

lemma formatSrcLine_markup:
  "fst (formatSrcLine ext self n c t) =
     ''<div class='heatmap-src-line-normal' style='background-color: '' @
       (if truthy t then heatmapScale self t else '''') @ '''>'' @
       ''<div class='heatmap-src-line-number'>'' @ show_int n @ ''</div>'' @
       ''<div class='heatmap-src-line-code'>'' @ hljs_highlight ext ''python'' c @ ''</div>'' @
     ''</div>''"
  by (simp add: formatSrcLine_def Let_def)

lemma formatSrcLine_calls:
  "scale_calls (formatSrcLine ext self n c t) = (if truthy t then [t] else [])"
  by (simp add: formatSrcLine_def scale_calls_def Let_def)


lemma js_get_Some_iff: "js_get m k = v \<Longrightarrow> v \<noteq> Undefined \<Longrightarrow> m k = Some v"
  by (auto simp add: js_get_def split: option.splits)

text \<open>
  Claim C6, amended. For a time that is absent (\<open>undefined\<close>) or zero, the formatter does
  not call the scale and writes the empty background color; this holds in particular for
  the time \<open>renderCode_\<close> looks up for a line with no entry, or a zero entry, in \<open>heatmap\<close>.
  The guard is the truth value of the time: the scale is called once, with the time, when
  the time is truthy and not at all otherwise. So every time passed to the scale is
  recorded in \<open>heatmap\<close> and is not zero, and every number other than zero is passed, a
  negative one as well.
\<close>

theorem unrecorded_time_not_scaled:
  "((t = Undefined \<or> t = Number (Finite 0)) \<longrightarrow>
      scale_calls (formatSrcLine ext self n c t) = [] \<and>
      fst (formatSrcLine ext self n c t) =
        ''<div class='heatmap-src-line-normal' style='background-color: '' @ '''' @ '''>'' @
          ''<div class='heatmap-src-line-number'>'' @ show_int n @ ''</div>'' @
          ''<div class='heatmap-src-line-code'>'' @ hljs_highlight ext ''python'' c @ ''</div>'' @
        ''</div>'') \<and>
   ((heatmap stats n = None \<or> heatmap stats n = Some (Number (Finite 0))) \<longrightarrow>
      scale_calls (formatSrcLine ext self n c (js_get (heatmap stats) n)) = []) \<and>
   scale_calls (formatSrcLine ext self n c t) = (if truthy t then [t] else []) \<and>
   (\<forall>v\<in>set (scale_calls (formatSrcLine ext self n c (js_get (heatmap stats) n))).
      heatmap stats n = Some v \<and> truthy v) \<and>
   (\<forall>x. Number (Finite x) \<in> set (scale_calls (formatSrcLine ext self n c t)) \<longrightarrow> x \<noteq> 0) \<and>
   (\<forall>x. x \<noteq> 0 \<longrightarrow>
      scale_calls (formatSrcLine ext self n c (Number (Finite x))) = [Number (Finite x)])"
proof (intro conjI impI ballI allI)
  assume "t = Undefined \<or> t = Number (Finite 0)"
  then have falsy: "\<not> truthy t" by auto
  show "scale_calls (formatSrcLine ext self n c t) = []"
    by (simp add: formatSrcLine_calls falsy)
  show "fst (formatSrcLine ext self n c t) =
        ''<div class='heatmap-src-line-normal' style='background-color: '' @ '''' @ '''>'' @
          ''<div class='heatmap-src-line-number'>'' @ show_int n @ ''</div>'' @
          ''<div class='heatmap-src-line-code'>'' @ hljs_highlight ext ''python'' c @ ''</div>'' @
        ''</div>''"
    unfolding formatSrcLine_markup using falsy by simp
next
  assume "heatmap stats n = None \<or> heatmap stats n = Some (Number (Finite 0))"
  then have "\<not> truthy (js_get (heatmap stats) n)"
    by (auto simp add: js_get_def)
  then show "scale_calls (formatSrcLine ext self n c (js_get (heatmap stats) n)) = []"
    by (simp add: formatSrcLine_calls)
next
  show "scale_calls (formatSrcLine ext self n c t) = (if truthy t then [t] else [])"
    by (rule formatSrcLine_calls)
next
  fix v
  assume "v \<in> set (scale_calls (formatSrcLine ext self n c (js_get (heatmap stats) n)))"
  then have eq: "js_get (heatmap stats) n = v" and tr: "truthy v"
    by (simp_all add: formatSrcLine_calls split: if_splits)
  from tr have "v \<noteq> Undefined" by auto
  with eq show "heatmap stats n = Some v" by (rule js_get_Some_iff)
  from tr show "truthy v" .
next
  fix x :: real
  assume "Number (Finite x) \<in> set (scale_calls (formatSrcLine ext self n c t))"
  then show "x \<noteq> 0"
    by (auto simp add: formatSrcLine_calls split: if_splits)
next
  fix x :: real
  assume "x \<noteq> 0"
  then show "scale_calls (formatSrcLine ext self n c (Number (Finite x))) = [Number (Finite x)]"
    by (simp add: formatSrcLine_calls)
qed

text \<open>
  On the sample file: line 5 has no time and no call of the scale is made for it, nor for
  a time of zero; line 1 has the time 0.5, which is passed to the scale.
\<close>

theorem unrecorded_time_not_scaled_witness:
  "heatmap sample_stats 5 = None \<and>
   scale_calls (formatSrcLine sample_ext sample_self 5 ''b=2'' (js_get (heatmap sample_stats) 5)) = [] \<and>
   scale_calls (formatSrcLine sample_ext sample_self 5 ''b=2'' (Number (Finite 0))) = [] \<and>
   Number (Finite (1 / 2)) \<in>
     set (scale_calls (formatSrcLine sample_ext sample_self 1 ''a=1'' (js_get (heatmap sample_stats) 1))) \<and>
   heatmap sample_stats 1 = Some (Number (Finite (1 / 2))) \<and>
   truthy (Number (Finite (1 / 2))) \<and>
   (1 / 2 :: real) \<noteq> 0"
proof -
  have absent: "heatmap sample_stats 5 = None"
    by (simp add: sample_stats_def)
  have called: "Number (Finite (1 / 2)) \<in>
      set (scale_calls (formatSrcLine sample_ext sample_self 1 ''a=1'' (js_get (heatmap sample_stats) 1)))"
    by (simp add: formatSrcLine_def scale_calls_def Let_def sample_stats_def js_get_def)
  note T5 = unrecorded_time_not_scaled [of "Number (Finite 0)" sample_ext sample_self 5 "''b=2''" sample_stats]
  note T1 = unrecorded_time_not_scaled [of "js_get (heatmap sample_stats) 1" sample_ext sample_self 1 "''a=1''" sample_stats]
  from T5 absent have a: "scale_calls (formatSrcLine sample_ext sample_self 5 ''b=2'' (js_get (heatmap sample_stats) 5)) = []"
    by blast
  from T5 have b: "scale_calls (formatSrcLine sample_ext sample_self 5 ''b=2'' (Number (Finite 0))) = []"
    by blast
  from T1 called have c: "heatmap sample_stats 1 = Some (Number (Finite (1 / 2))) \<and> truthy (Number (Finite (1 / 2)))"
    by blast
  have called': "Number (Finite (1 / 2)) \<in>
      set (scale_calls (formatSrcLine sample_ext sample_self 1 ''a=1'' (Number (Finite (1 / 2)))))"
    by (simp add: formatSrcLine_def scale_calls_def Let_def)
  from unrecorded_time_not_scaled [of "Number (Finite (1 / 2))" sample_ext sample_self 1 "''a=1''" sample_stats]
    called'
  have d: "(1 / 2 :: real) \<noteq> 0" by blast
  from absent a b called c d show ?thesis by blast
qed

text \<open>
  Claim C6 as stated fails on a negative time: a line with the recorded time -1 has its
  time passed to the scale, and -1 is not strictly positive.
\<close>

theorem negative_time_scaled_counterexample:
  "heatmap negative_stats 5 = Some (Number (Finite (- 1))) \<and>
   scale_calls (formatSrcLine sample_ext sample_self 5 ''b=2'' (js_get (heatmap negative_stats) 5)) =
     [Number (Finite (- 1))] \<and>
   \<not> (0 :: real) < - 1"
  by (simp add: negative_stats_def js_get_def formatSrcLine_calls)









section \<open>The hover handlers\<close>

lemma hideTooltip_idem: "hideTooltip e (hideTooltip e s) = hideTooltip e s"
  by (simp add: hideTooltip_def)

lemma hideTooltip_row: "rowClass (hideTooltip e s) e = ''heatmap-src-line-normal''"
  by (simp add: hideTooltip_def)

lemma hideTooltip_tooltip:
  "tooltipClass (hideTooltip e s) = ''content-tooltip content-tooltip-invisible''"
  by (simp add: hideTooltip_def)

text \<open>
  Claim C7. On every row the handlers are bound to, and from every state of the page,
  hover-exit is \<open>hideTooltip_\<close>: it sets the row to the class
  \<open>heatmap-src-line-normal\<close> and the tooltip to the class
  \<open>content-tooltip content-tooltip-invisible\<close>, whether the state comes from a hover-enter
  that showed the tooltip or from one that did nothing, and doing it twice gives the
  state that doing it once gives.
\<close>

theorem hover_exit:
  assumes "j < length (bound_rows pg i)"
  shows "on_mouseout pg i j s = hideTooltip (i, j) s \<and>
         rowClass (on_mouseout pg i j s) (i, j) = ''heatmap-src-line-normal'' \<and>
         tooltipClass (on_mouseout pg i j s) = ''content-tooltip content-tooltip-invisible'' \<and>
         on_mouseout pg i j (on_mouseout pg i j s) = on_mouseout pg i j s \<and>
         rowClass (on_mouseout pg i j (on_mouseover ext self pg ev i j s)) (i, j) =
           ''heatmap-src-line-normal'' \<and>
         tooltipClass (on_mouseout pg i j (on_mouseover ext self pg ev i j s)) =
           ''content-tooltip content-tooltip-invisible''"
proof -
  have out: "on_mouseout pg i j s' = hideTooltip (i, j) s'" for s'
    using assms by (simp add: on_mouseout_def)
  show ?thesis
    by (simp only: out hideTooltip_idem hideTooltip_row hideTooltip_tooltip)
qed

lemma sample_bound_rows: "length (bound_rows (render sample_ext sample_self) 0) = 2"
  by (simp add: bound_rows_render sample_self_def CodeHeatmap_def sample_report_def sample_stats_def)

text \<open>
  On the sample page: hover-exit after hover-enter on row 1 (no data, hover-enter did
  nothing) and on row 0 (hover-enter showed the tooltip).
\<close>

theorem hover_exit_witness:
  "(1::nat) < length (bound_rows (render sample_ext sample_self) 0) \<and>
   rowClass (on_mouseout (render sample_ext sample_self) 0 1
      (on_mouseover sample_ext sample_self (render sample_ext sample_self) sample_event 0 1
         (ui (render sample_ext sample_self)))) (0, 1) = ''heatmap-src-line-normal'' \<and>
   tooltipClass (on_mouseout (render sample_ext sample_self) 0 1
      (on_mouseover sample_ext sample_self (render sample_ext sample_self) sample_event 0 1
         (ui (render sample_ext sample_self)))) = ''content-tooltip content-tooltip-invisible'' \<and>
   (0::nat) < length (bound_rows (render sample_ext sample_self) 0) \<and>
   rowClass (on_mouseout (render sample_ext sample_self) 0 0
      (on_mouseover sample_ext sample_self (render sample_ext sample_self) sample_event 0 0
         (ui (render sample_ext sample_self)))) (0, 0) = ''heatmap-src-line-normal'' \<and>
   tooltipClass (on_mouseout (render sample_ext sample_self) 0 0
      (on_mouseover sample_ext sample_self (render sample_ext sample_self) sample_event 0 0
         (ui (render sample_ext sample_self)))) = ''content-tooltip content-tooltip-invisible''"
proof -
  have r1: "(1::nat) < length (bound_rows (render sample_ext sample_self) 0)"
    by (simp add: sample_bound_rows)
  have r0: "(0::nat) < length (bound_rows (render sample_ext sample_self) 0)"
    by (simp add: sample_bound_rows)
  from hover_exit [OF r1, of "ui (render sample_ext sample_self)" sample_ext sample_self sample_event]
       hover_exit [OF r0, of "ui (render sample_ext sample_self)" sample_ext sample_self sample_event]
       r0 r1
  show ?thesis by blast
qed












section \<open>The color scale on its domain\<close>

lemma log_position_single_point: "lo \<noteq> 0 \<Longrightarrow> log_position lo lo t = 0"
  by (simp add: log_position_def)



lemma colorFor_channels:
  "colorFor T t =
     (235 - 164 * log_position (1 / 1000000) T t,
      250 - 41 * log_position (1 / 1000000) T t,
      235 - 164 * log_position (1 / 1000000) T t)"
  by (simp add: colorFor_def interpolate_rgb_def light_rgb_def saturated_rgb_def)

lemma light_distance_colorFor:
  "light_distance (colorFor T t) = 369 * \<bar>log_position (1 / 1000000) T t\<bar>"
  by (simp add: colorFor_channels light_distance_def light_rgb_def abs_mult)

text \<open>
  Claim C4. When the total run time of the report is \<open>MIN_RUN_TIME\<close>, the two ends of the
  domain the constructor hands to the scale are equal. On that domain the mapper is
  defined for every time and returns the light endpoint color: every time is at the place
  0 of the scale and its color is \<open>MIN_RUN_COLOR\<close>.
\<close>

theorem single_point_domain:
  "MAX_RUN_TIME (CodeHeatmap ext \<lparr>runTime = Number (Finite (1 / 1000000)), heatmaps = files\<rparr>) =
     MIN_RUN_TIME (CodeHeatmap ext \<lparr>runTime = Number (Finite (1 / 1000000)), heatmaps = files\<rparr>) \<and>
   log_position (1 / 1000000) (1 / 1000000) t = 0 \<and>
   colorFor (1 / 1000000) t = light_rgb \<and>
   light_distance (colorFor (1 / 1000000) t) = 0"
proof -
  have domain: "MAX_RUN_TIME (CodeHeatmap ext \<lparr>runTime = Number (Finite (1 / 1000000)), heatmaps = files\<rparr>) =
     MIN_RUN_TIME (CodeHeatmap ext \<lparr>runTime = Number (Finite (1 / 1000000)), heatmaps = files\<rparr>)"
    by (simp add: CodeHeatmap_def)
  have place: "log_position (1 / 1000000) (1 / 1000000) t = 0"
    by (rule log_position_single_point) simp
  have color: "colorFor (1 / 1000000) t = light_rgb"
    by (simp add: colorFor_channels place light_rgb_def)
  have "light_distance (colorFor (1 / 1000000) t) = 0"
    by (simp add: light_distance_colorFor place)
  with domain place color show ?thesis by blast
qed






end
